theory Spec2Isabelle
  imports Complex_Main "HOL-Library.AList"
begin

section \<open>The financial adviser dashboard (app.py)\<close>

text \<open>
  The program is one Streamlit script. Every user action runs \<open>main\<close> once, from top
  to bottom, against the session state (\<open>st.session_state\<close>) and three outside services:
  the agent runtime, the market-data library and the clock. The model makes one such
  pass a function of
  \<^item> the session state before the pass,
  \<^item> the values the widgets return in this pass (\<open>inputs\<close>),
  \<^item> what the outside services answer in this pass (\<open>env\<close>),
  and returns the session state after the pass together with the list of elements the
  pass puts on the page, in order.

  Conventions.
  \<^item> A Python exception is \<open>Inl msg\<close>, with \<open>msg\<close> the text of \<open>str(e)\<close>; every
    \<open>try\<close>/\<open>except\<close> of the source is a case distinction on such a value. The exceptions
    are those of the outside services and of indexing, all derived from \<open>Exception\<close>; the
    calls that draw on the page do not raise.
  \<^item> Strings are ASCII. The pictographs that open some of the messages are left out of the
    message texts.
  \<^item> Prices and clock readings are finite floating-point numbers in the source; they are
    exact reals here, so the rounding of single float operations is not part of the model.
    A number formatted with \<open>n\<close> decimals is kept as the integer count of its last shown
    decimal place (type \<open>decimal\<close>), not as text.
\<close>

subsection \<open>Python values\<close>

datatype py_error = IndexError

text \<open>\<open>seq.iloc[i]\<close> and \<open>seq[i]\<close>: a negative index counts from the end, and an index
  outside the sequence raises.\<close>

definition iloc :: "'a list \<Rightarrow> int \<Rightarrow> py_error + 'a" where
  "iloc xs i =
     (if 0 \<le> i \<and> i < int (length xs) then Inr (xs ! nat i)
      else if i < 0 \<and> - int (length xs) \<le> i then Inr (xs ! nat (int (length xs) + i))
      else Inl IndexError)"

text \<open>\<open>seq[-n:]\<close>: the last \<open>n\<close> elements, or all of them when there are fewer.\<close>

definition last_n :: "nat \<Rightarrow> 'a list \<Rightarrow> 'a list" where
  "last_n n xs = drop (length xs - n) xs"

text \<open>\<open>s.split(c)\<close> for a one-character separator: never returns the empty list.\<close>

primrec str_split :: "char \<Rightarrow> string \<Rightarrow> string list" where
  "str_split c [] = [[]]"
| "str_split c (x # xs) =
     (if x = c then [] # str_split c xs
      else (case str_split c xs of [] \<Rightarrow> [[x]] | p # ps \<Rightarrow> (x # p) # ps))"

text \<open>\<open>sep.join(parts)\<close>.\<close>

fun str_join :: "string \<Rightarrow> string list \<Rightarrow> string" where
  "str_join sep [] = []"
| "str_join sep [p] = p"
| "str_join sep (p # q # ps) = p @ sep @ str_join sep (q # ps)"

text \<open>\<open>str.isspace\<close> on ASCII: tab, line feed, vertical tab, form feed, carriage return,
  the four separators 28 to 31, and the space.\<close>

definition isspace :: "char \<Rightarrow> bool" where
  "isspace c = (let n = (of_char c :: nat) in (9 \<le> n \<and> n \<le> 13) \<or> (28 \<le> n \<and> n \<le> 32))"

definition str_strip :: "string \<Rightarrow> string" where
  "str_strip s = rev (dropWhile isspace (rev (dropWhile isspace s)))"

definition upper_char :: "char \<Rightarrow> char" where
  "upper_char c =
     (let n = (of_char c :: nat) in if 97 \<le> n \<and> n \<le> 122 then char_of (n - 32) else c)"

definition str_upper :: "string \<Rightarrow> string" where
  "str_upper s = map upper_char s"

subsection \<open>Formatted numbers\<close>

text \<open>Python formats a float with \<open>.nf\<close> by rounding its exact value to \<open>n\<close> decimals,
  ties to the even neighbour.\<close>

definition round_half_even :: "real \<Rightarrow> int" where
  "round_half_even x =
     (let f = \<lfloor>x\<rfloor>; r = x - of_int f
      in if r < 1 / 2 then f else if 1 / 2 < r then f + 1 else if even f then f else f + 1)"

datatype decimal = Decimal (places: nat) (units: int)


definition fmt :: "nat \<Rightarrow> real \<Rightarrow> decimal" where
  "fmt n x = Decimal n (round_half_even (x * 10 ^ n))"

subsection \<open>Data\<close>

text \<open>One row of the frame \<open>ticker.history\<close> returns; only the columns the program reads.\<close>

record row =
  date :: nat
  close :: real
  volume :: nat

type_synonym info = "(string \<times> string) list"

text \<open>The dict \<open>get_stock_data\<close> stores per symbol.\<close>

record snapshot =
  history :: "row list"
  info :: info
  current_price :: "real option"

text \<open>A Python dict keeps its keys in insertion order, and assigning to a key that is
  present keeps its place: an association list changed by \<open>AList.update\<close>.\<close>

type_synonym stock_data = "(string \<times> snapshot) list"

datatype agent_handle = AgentHandle nat

record analysis_record =
  timestamp :: string
  stocks :: "string list"
  query :: string
  response :: string
  duration :: decimal

record session_state =
  agent :: "agent_handle option"
  analysis_history :: "analysis_record list"

datatype trace =
    Scatter (trace_name: string) (trace_x: "nat list") (price_y: "real list")
  | Bar (trace_name: string) (trace_x: "nat list") (volume_y: "nat list")

record figure =
  traces :: "trace list"
  title :: string

datatype percent = Percent decimal | Infinite

text \<open>What a pass puts on the page. \<open>Completed d\<close> is the success message
  \<open>Analysis completed in d seconds\<close>; \<open>Metric label value delta\<close> is \<open>st.metric\<close> with the
  price and, when given, the change and its percentage; \<open>Button label disabled\<close> is a button
  as drawn.\<close>

datatype element =
    Header string
  | Markdown string
  | Warning string
  | Error string
  | Success string
  | Completed decimal
  | Info string
  | Metric string decimal "(decimal \<times> percent) option"
  | PlotlyChart figure
  | Button string bool

subsection \<open>The outside services\<close>

text \<open>
  \<^item> \<open>Agent_new\<close>: the constructor call \<open>Agent(model=Gemini(...), tools=[...], ...)\<close>.
  \<^item> \<open>yf_history k symbol period\<close>: \<open>yf.Ticker(symbol).history(period=period)\<close> in the
    \<open>k\<close>-th iteration of the fetch loop; a symbol listed twice may be answered differently.
  \<^item> \<open>yf_info k symbol\<close>: the property \<open>ticker.info\<close> in the same iteration.
  \<^item> \<open>agent_run a q\<close>: \<open>a.run(q)\<close>, giving the \<open>content\<close> of the response.
  \<^item> \<open>time_start\<close>, \<open>time_end\<close>: the two readings of \<open>time.time()\<close> around the run.
  \<^item> \<open>now\<close>: \<open>datetime.now().strftime("%Y-%m-%d %H:%M:%S")\<close>.
\<close>

record env =
  Agent_new :: "string + agent_handle"
  yf_history :: "nat \<Rightarrow> string \<Rightarrow> string \<Rightarrow> string + row list"
  yf_info :: "nat \<Rightarrow> string \<Rightarrow> string + info"
  agent_run :: "agent_handle \<Rightarrow> string \<Rightarrow> string + string"
  time_start :: real
  time_end :: real
  now :: string

subsection \<open>create_agent (lines 55 to 85)\<close>

definition create_agent :: "env \<Rightarrow> agent_handle option \<times> element list" where
  "create_agent e =
     (case Agent_new e of
        Inr a \<Rightarrow> (Some a, [])
      | Inl ex \<Rightarrow> (None, [Error (''Error creating agent: '' @ ex)]))"

subsection \<open>get_stock_data (lines 87 to 102)\<close>

text \<open>The body of the \<open>try\<close> for one symbol: the snapshot, or the exception raised.\<close>

definition fetch_symbol :: "env \<Rightarrow> nat \<Rightarrow> string \<Rightarrow> string \<Rightarrow> string + snapshot" where
  "fetch_symbol e k symbol period =
     (case yf_history e k symbol period of
        Inl ex \<Rightarrow> Inl ex
      | Inr hist \<Rightarrow>
          (case yf_info e k symbol of
             Inl ex \<Rightarrow> Inl ex
           | Inr nfo \<Rightarrow>
               (if hist \<noteq> [] then
                  (case iloc (map close hist) (- 1) of
                     Inl _ \<Rightarrow> Inl ''single positional indexer is out-of-bounds''
                   | Inr c \<Rightarrow> Inr \<lparr>history = hist, info = nfo, current_price = Some c\<rparr>)
                else Inr \<lparr>history = hist, info = nfo, current_price = None\<rparr>)))"

text \<open>The \<open>for\<close> loop, from iteration \<open>k\<close> on, with the dict and the warnings so far.\<close>

fun fetch_loop ::
  "env \<Rightarrow> string \<Rightarrow> nat \<Rightarrow> string list \<Rightarrow> stock_data \<times> element list
     \<Rightarrow> stock_data \<times> element list" where
  "fetch_loop e period k [] acc = acc"
| "fetch_loop e period k (symbol # rest) (data, page) =
     (case fetch_symbol e k symbol period of
        Inr snap \<Rightarrow> fetch_loop e period (Suc k) rest (AList.update symbol snap data, page)
      | Inl ex \<Rightarrow>
          fetch_loop e period (Suc k) rest
            (data, page @ [Warning (''Could not fetch data for '' @ symbol @ '': '' @ ex)]))"

definition get_stock_data :: "env \<Rightarrow> string list \<Rightarrow> string \<Rightarrow> stock_data \<times> element list" where
  "get_stock_data e symbols period = fetch_loop e period 0 symbols ([], [])"

subsection \<open>create_price_chart and create_volume_chart (lines 104 to 150)\<close>

text \<open>The loops over \<open>stock_data.items()\<close>; \<open>fig.add_trace\<close> appends to the figure's traces.\<close>

fun add_price_traces :: "stock_data \<Rightarrow> trace list \<Rightarrow> trace list" where
  "add_price_traces [] fig = fig"
| "add_price_traces ((symbol, data) # rest) fig =
     (if history data \<noteq> [] then
        add_price_traces rest
          (fig @ [Scatter symbol (map date (history data)) (map close (history data))])
      else add_price_traces rest fig)"

definition create_price_chart :: "stock_data \<Rightarrow> figure" where
  "create_price_chart stock_data =
     \<lparr>traces = add_price_traces stock_data [], title = ''Stock Price Comparison (6 Months)''\<rparr>"

fun add_volume_traces :: "stock_data \<Rightarrow> trace list \<Rightarrow> trace list" where
  "add_volume_traces [] fig = fig"
| "add_volume_traces ((symbol, data) # rest) fig =
     (if history data \<noteq> [] then
        add_volume_traces rest
          (fig @ [Bar symbol (last_n 30 (map date (history data)))
                    (last_n 30 (map volume (history data)))])
      else add_volume_traces rest fig)"

definition create_volume_chart :: "stock_data \<Rightarrow> figure" where
  "create_volume_chart stock_data =
     \<lparr>traces = add_volume_traces stock_data [],
      title = ''Trading Volume Comparison (Last 30 Days)''\<rparr>"

subsection \<open>main: the sidebar (lines 159 to 220)\<close>

text \<open>The values of the widgets in one pass, each field named after its widget.
  \<open>multiselect = None\<close> is the untouched widget, which returns its default; \<open>text_input\<close>
  is the custom symbols, \<open>radio\<close> the analysis type, \<open>text_area\<close> the custom query.
  \<open>button_initialize\<close> and \<open>button_run\<close> say that the user pressed the button that
  started this pass.\<close>

datatype category = Technology | Finance | Healthcare | Energy

datatype analysis_mode = Quick_Comparison | Detailed_Analysis | Risk_Assessment | Custom_Query

record inputs =
  button_initialize :: bool
  selectbox :: category
  multiselect :: "string list option"
  text_input :: string
  radio :: analysis_mode
  text_area :: string
  button_run :: bool

text \<open>\<open>st.button\<close>: true in the pass its click started; a disabled button is never clicked.\<close>

definition st_button :: "bool \<Rightarrow> bool \<Rightarrow> bool" where
  "st_button clicked disabled = (clicked \<and> \<not> disabled)"

text \<open>Lines 163 to 169: the Initialize button.\<close>

definition initialize_agent ::
  "env \<Rightarrow> bool \<Rightarrow> session_state \<Rightarrow> session_state \<times> element list" where
  "initialize_agent e clicked s =
     (if st_button clicked False then
        (case create_agent e of
           (a, page) \<Rightarrow>
             (s\<lparr>agent := a\<rparr>,
              Button ''Initialize AI Agent'' False # page @
                [if a \<noteq> None then Success ''Agent initialized successfully!''
                 else Error ''Failed to initialize agent'']))
      else (s, [Button ''Initialize AI Agent'' False]))"

definition default_stocks :: "string list" where
  "default_stocks = [''AAPL'', ''TSLA'', ''GOOGL'']"

fun popular_stocks :: "category \<Rightarrow> string list" where
  "popular_stocks Technology = [''AAPL'', ''MSFT'', ''GOOGL'', ''AMZN'', ''TSLA'', ''NVDA'', ''META'']"
| "popular_stocks Finance = [''JPM'', ''BAC'', ''WFC'', ''GS'', ''MS'', ''C'']"
| "popular_stocks Healthcare = [''JNJ'', ''PFE'', ''UNH'', ''ABBV'', ''MRK'']"
| "popular_stocks Energy = [''XOM'', ''CVX'', ''COP'', ''SLB'', ''EOG'']"

text \<open>Lines 188 to 205: the multiselect, the free-text override and the fallback.\<close>

definition select_stocks :: "inputs \<Rightarrow> string list" where
  "select_stocks inp =
     (let selected_category = selectbox inp;
          selected_stocks =
            (case multiselect inp of
               None \<Rightarrow>
                 (if selected_category = Technology then default_stocks
                  else take 3 (popular_stocks selected_category))
             | Some chosen \<Rightarrow> chosen);
          custom_stocks = text_input inp;
          selected_stocks =
            (if custom_stocks \<noteq> [] then
               map (\<lambda>s. str_upper (str_strip s)) (str_split (CHR '','') custom_stocks)
             else selected_stocks)
      in if selected_stocks = [] then default_stocks else selected_stocks)"

subsection \<open>main: the data panel (lines 225 to 261)\<close>

text \<open>Lines 238 to 255, one symbol of the metrics loop. The column a card is drawn in
  (\<open>cols[i]\<close>, one column per selected stock, and the mapping has no more entries than
  that) is not part of the model. \<open>if data['current_price']\<close> is false
  for \<open>None\<close> and for zero. \<open>iloc[-2]\<close> raises when the history has fewer than two rows, and
  the bare \<open>except\<close> then draws the price alone. The prices are numpy floats, whose division
  by zero gives an infinity and does not raise.\<close>

definition metric_card :: "string \<Rightarrow> snapshot \<Rightarrow> element list" where
  "metric_card symbol data =
     (case current_price data of
        None \<Rightarrow> []
      | Some current \<Rightarrow>
          (if current = 0 then []
           else
             (case iloc (map close (history data)) (- 2) of
                Inl _ \<Rightarrow> [Metric symbol (fmt 2 current) None]
              | Inr prev_close \<Rightarrow>
                  (let change = current - prev_close;
                       change_pct =
                         (if prev_close = 0 then Infinite
                          else Percent (fmt 1 (change / prev_close * 100)))
                   in [Metric symbol (fmt 2 current) (Some (fmt 2 change, change_pct))]))))"

definition data_panel :: "env \<Rightarrow> string list \<Rightarrow> element list" where
  "data_panel e selected_stocks =
     (if selected_stocks \<noteq> [] then
        (case get_stock_data e selected_stocks ''6mo'' of
           (stock_data, warnings) \<Rightarrow>
             Header (''Live Data for '' @ str_join '', '' selected_stocks) # warnings @
             (if stock_data \<noteq> [] then
                concat (map (\<lambda>(symbol, data). metric_card symbol data) stock_data) @
                [PlotlyChart (create_price_chart stock_data),
                 PlotlyChart (create_volume_chart stock_data)]
              else []))
      else [])"

subsection \<open>main: the analysis section (lines 277 to 342)\<close>

text \<open>One line of a triple-quoted template: the source's indentation of twenty spaces, the
  text, a line feed.\<close>

definition template_line :: "string \<Rightarrow> string" where
  "template_line s = replicate 20 (CHR '' '') @ s @ ''\<newline>''"

text \<open>Lines 286 to 314.\<close>

fun compose_query :: "analysis_mode \<Rightarrow> string list \<Rightarrow> string \<Rightarrow> string" where
  "compose_query Quick_Comparison selected_stocks custom_query =
     ''\<newline>'' @
     template_line (''Provide a quick comparison of '' @ str_join '', '' selected_stocks @
                    '' stocks including:'') @
     template_line ''- Current prices and recent performance'' @
     template_line ''- Key financial metrics'' @
     template_line ''- Brief analyst recommendations'' @
     template_line ''Use tables for clear data presentation.'' @
     replicate 20 (CHR '' '')"
| "compose_query Detailed_Analysis selected_stocks custom_query =
     ''\<newline>'' @
     template_line (''Perform a comprehensive analysis of '' @ str_join '', '' selected_stocks @
                    '' including:'') @
     template_line ''- Current stock prices and performance metrics'' @
     template_line ''- Company financial health and ratios'' @
     template_line ''- Analyst recommendations and price targets'' @
     template_line ''- Recent company news and developments'' @
     template_line ''- Investment risks and opportunities'' @
     template_line
       ''Present findings in well-structured tables and provide detailed reasoning.'' @
     replicate 20 (CHR '' '')"
| "compose_query Risk_Assessment selected_stocks custom_query =
     ''\<newline>'' @
     template_line (''Conduct a risk assessment for '' @ str_join '', '' selected_stocks @
                    '' focusing on:'') @
     template_line ''- Volatility and price stability'' @
     template_line ''- Company-specific risks'' @
     template_line ''- Market and sector risks'' @
     template_line ''- Financial stability indicators'' @
     template_line ''Provide risk ratings and mitigation strategies.'' @
     replicate 20 (CHR '' '')"
| "compose_query Custom_Query selected_stocks custom_query =
     ''Analyze '' @ str_join '', '' selected_stocks @ '' stocks: '' @ custom_query"

text \<open>Lines 279 to 342. Without an agent only the warning is drawn. With one, the button is
  drawn, disabled when no stock is selected; its click composes the query and runs the
  agent inside \<open>try\<close>. The record is appended after the call has returned, so an exception
  of the call leaves the history as it was.\<close>

definition run_analysis ::
  "env \<Rightarrow> session_state \<Rightarrow> string list \<Rightarrow> analysis_mode \<Rightarrow> string \<Rightarrow> bool
     \<Rightarrow> session_state \<times> element list" where
  "run_analysis e s selected_stocks mode custom_query clicked =
     (case agent s of
        None \<Rightarrow>
          (s, [Header ''AI Financial Analysis'',
               Warning ''Please initialize the AI Agent in the sidebar first.''])
      | Some a \<Rightarrow>
          (let button = Button ''Run Analysis'' (selected_stocks = []) in
           if st_button clicked (selected_stocks = []) then
             (if selected_stocks \<noteq> [] then
                (let query = compose_query mode selected_stocks custom_query in
                 case agent_run e a query of
                   Inr content \<Rightarrow>
                     (s\<lparr>analysis_history := analysis_history s @
                          [\<lparr>timestamp = now e, stocks = selected_stocks, query = query,
                            response = content,
                            duration = fmt 2 (time_end e - time_start e)\<rparr>]\<rparr>,
                      [Header ''AI Financial Analysis'', button,
                       Markdown ''### Analysis Results'', Markdown content,
                       Completed (fmt 2 (time_end e - time_start e))])
                 | Inl ex \<Rightarrow>
                     (s, [Header ''AI Financial Analysis'', button,
                          Error (''Analysis failed: '' @ ex),
                          Info ''Try reinitializing the agent or check your query.'']))
              else (s, [Header ''AI Financial Analysis'', button]))
           else (s, [Header ''AI Financial Analysis'', button])))"

subsection \<open>main (lines 153 to 361)\<close>

text \<open>One pass. The parts of the page that only read the state (the page header, the
  info expanders, the history panel and the footer) are not modelled.\<close>

definition main :: "env \<Rightarrow> inputs \<Rightarrow> session_state \<Rightarrow> session_state \<times> element list" where
  "main e inp s =
     (case initialize_agent e (button_initialize inp) s of
        (s1, sidebar) \<Rightarrow>
          (let selected_stocks = select_stocks inp;
               panel = data_panel e selected_stocks
           in case run_analysis e s1 selected_stocks (radio inp) (text_area inp)
                     (button_run inp) of
                (s2, analysis) \<Rightarrow> (s2, sidebar @ panel @ analysis)))"

text \<open>The session state of a fresh session (lines 50 to 53).\<close>

definition initial_state :: session_state where
  "initial_state = \<lparr>agent = None, analysis_history = []\<rparr>"

subsection \<open>Notions used to state the properties\<close>

text \<open>The warning that iteration \<open>k\<close> of the fetch loop issues for its symbol: one when the
  body of the \<open>try\<close> raises, none otherwise.\<close>

definition fetch_warning :: "env \<Rightarrow> string \<Rightarrow> nat \<times> string \<Rightarrow> element list" where
  "fetch_warning e period = (\<lambda>(k, symbol).
     case fetch_symbol e k symbol period of
       Inl ex \<Rightarrow> [Warning (''Could not fetch data for '' @ symbol @ '': '' @ ex)]
     | Inr _ \<Rightarrow> [])"

subsection \<open>Sample environments\<close>

text \<open>A market-data service that knows no \<open>BADSYM\<close>, has no rows for \<open>EMPTY\<close>, one row
  closing at zero for \<open>ZERO\<close> and two rows for every other symbol, with an agent that
  answers; and one in which every outside call raises. \<open>long_history\<close> has 200 rows.\<close>

definition example_history :: "row list" where
  "example_history =
     [\<lparr>date = 1, close = 10, volume = 5\<rparr>, \<lparr>date = 2, close = 12.5, volume = 7\<rparr>]"

definition example_env :: env where
  "example_env =
     \<lparr>Agent_new = Inr (AgentHandle 1),
      yf_history = (\<lambda>k symbol period.
         if symbol = ''BADSYM'' then Inl ''no data found''
         else if symbol = ''EMPTY'' then Inr []
         else if symbol = ''ZERO'' then Inr [\<lparr>date = 1, close = 0, volume = 0\<rparr>]
         else Inr example_history),
      yf_info = (\<lambda>k symbol. Inr [(''longName'', symbol)]),
      agent_run = (\<lambda>a q. Inr ''ok''),
      time_start = 100, time_end = 101.505, now = ''2024-01-01 00:00:00''\<rparr>"

definition long_history :: "row list" where
  "long_history = map (\<lambda>i. \<lparr>date = i, close = 1 + real i, volume = 100 + i\<rparr>) [0..<200]"

definition failing_env :: env where
  "failing_env =
     \<lparr>Agent_new = Inl ''missing API key'',
      yf_history = (\<lambda>k symbol period. Inl ''connection refused''),
      yf_info = (\<lambda>k symbol. Inl ''connection refused''),
      agent_run = (\<lambda>a q. Inl ''quota exceeded''),
      time_start = 100, time_end = 101, now = ''2024-01-01 00:00:00''\<rparr>"

text \<open>A mapping with one symbol of 200 rows and one symbol without rows.\<close>

definition sample_data :: stock_data where
  "sample_data =
     [(''AAPL'', \<lparr>history = long_history, info = [], current_price = Some 200\<rparr>),
      (''EMPTY'', \<lparr>history = [], info = [], current_price = None\<rparr>)]"


text \<open>Widget values of a pass started by the Run button, in Custom Query mode with an
  empty query and no custom symbols; and a session that holds an agent.\<close>

definition sample_inputs :: inputs where
  "sample_inputs =
     \<lparr>button_initialize = False, selectbox = Technology, multiselect = None,
      text_input = '''', radio = Custom_Query, text_area = '''', button_run = True\<rparr>"

definition ready_state :: session_state where
  "ready_state = \<lparr>agent = Some (AgentHandle 7), analysis_history = []\<rparr>"

section \<open>Properties\<close>

subsection \<open>The fetch loop\<close>

lemma fetch_loop_keys:
  "fst ` set (fst (fetch_loop e period k symbols (data, page))) =
     fst ` set data \<union>
     {s. \<exists>i < length symbols. symbols ! i = s \<and> (\<exists>snap. fetch_symbol e (k + i) s period = Inr snap)}"
proof (induction symbols arbitrary: k data page)
  case Nil
  show ?case by simp
next
  case (Cons symbol rest)
  have step: "{s. \<exists>i < length (symbol # rest). (symbol # rest) ! i = s \<and>
                (\<exists>snap. fetch_symbol e (k + i) s period = Inr snap)} =
              (if \<exists>snap. fetch_symbol e k symbol period = Inr snap then {symbol} else {}) \<union>
              {s. \<exists>i < length rest. rest ! i = s \<and>
                (\<exists>snap. fetch_symbol e (Suc k + i) s period = Inr snap)}"
    (is "?L = ?R")
  proof (rule set_eqI)
    fix s
    show "s \<in> ?L \<longleftrightarrow> s \<in> ?R"
    proof
      assume "s \<in> ?L"
      then obtain i where i: "i < length (symbol # rest)" "(symbol # rest) ! i = s"
        "\<exists>snap. fetch_symbol e (k + i) s period = Inr snap" by blast
      show "s \<in> ?R"
      proof (cases i)
        case 0
        with i show ?thesis by auto
      next
        case (Suc j)
        with i have "j < length rest" "rest ! j = s"
          "\<exists>snap. fetch_symbol e (Suc k + j) s period = Inr snap" by auto
        then show ?thesis by blast
      qed
    next
      assume "s \<in> ?R"
      then consider "s = symbol" "\<exists>snap. fetch_symbol e k symbol period = Inr snap"
        | j where "j < length rest" "rest ! j = s"
            "\<exists>snap. fetch_symbol e (Suc k + j) s period = Inr snap"
        by (auto split: if_splits)
      then show "s \<in> ?L"
      proof cases
        case 1
        then have "0 < length (symbol # rest) \<and> (symbol # rest) ! 0 = s \<and>
          (\<exists>snap. fetch_symbol e (k + 0) s period = Inr snap)" by simp
        then show ?thesis by blast
      next
        case 2
        then have "Suc j < length (symbol # rest) \<and> (symbol # rest) ! Suc j = s \<and>
          (\<exists>snap. fetch_symbol e (k + Suc j) s period = Inr snap)" by simp
        then show ?thesis by blast
      qed
    qed
  qed
  show ?case
  proof (cases "fetch_symbol e k symbol period")
    case (Inl ex)
    then show ?thesis using Cons.IH [of "Suc k" data] by (simp only: step) auto
  next
    case (Inr snap)
    then show ?thesis using Cons.IH [of "Suc k" "AList.update symbol snap data"]
      by (simp only: step) (auto simp: dom_update)
  qed
qed

lemma fetch_loop_page:
  "snd (fetch_loop e period k symbols (data, page)) =
     page @ concat (map (fetch_warning e period) (enumerate k symbols))"
  by (induction symbols arbitrary: k data page)
     (auto simp: fetch_warning_def split: sum.splits)

lemma fetch_loop_distinct:
  "distinct (map fst data) \<Longrightarrow>
   distinct (map fst (fst (fetch_loop e period k symbols (data, page))))"
  by (induction symbols arbitrary: k data page)
     (auto simp: distinct_update split: sum.splits)

lemma fetch_loop_lookup_other:
  "s \<notin> set symbols \<Longrightarrow>
   map_of (fst (fetch_loop e period k symbols (data, page))) s = map_of data s"
  by (induction symbols arbitrary: k data page)
     (auto simp: update_conv' split: sum.splits)

lemma fetch_loop_lookup:
  "i < length symbols \<Longrightarrow> \<forall>j < length symbols. symbols ! j = symbols ! i \<longrightarrow> j = i \<Longrightarrow>
   fetch_symbol e (k + i) (symbols ! i) period = Inr snap \<Longrightarrow>
   map_of (fst (fetch_loop e period k symbols (data, page))) (symbols ! i) = Some snap"
proof (induction symbols arbitrary: i k data page)
  case Nil
  then show ?case by simp
next
  case (Cons symbol rest)
  show ?case
  proof (cases i)
    case 0
    have "symbol \<notin> set rest"
    proof
      assume "symbol \<in> set rest"
      then obtain j where "j < length rest" "rest ! j = symbol"
        by (auto simp: in_set_conv_nth)
      then have "Suc j < length (symbol # rest)" "(symbol # rest) ! Suc j = (symbol # rest) ! i"
        using 0 by auto
      with Cons.prems(2) have "Suc j = i" by blast
      with 0 show False by simp
    qed
    with 0 Cons.prems(3) show ?thesis
      by (simp add: fetch_loop_lookup_other update_conv')
  next
    case (Suc j)
    with Cons.prems have j: "j < length rest" and
      f: "fetch_symbol e (Suc k + j) (rest ! j) period = Inr snap" by auto
    have u: "\<forall>l < length rest. rest ! l = rest ! j \<longrightarrow> l = j"
    proof (intro allI impI)
      fix l assume "l < length rest" "rest ! l = rest ! j"
      then have "Suc l < length (symbol # rest)" "(symbol # rest) ! Suc l = (symbol # rest) ! i"
        using Suc by auto
      with Cons.prems(2) have "Suc l = i" by blast
      with Suc show "l = j" by simp
    qed
    from Cons.IH [OF j u f] Suc show ?thesis
      by (cases "fetch_symbol e k symbol period") auto
  qed
qed

text \<open>The mapping has at most one entry per listed symbol, so the metrics loop never
  runs out of columns.\<close>

lemma length_update_le: "length (AList.update k v al) \<le> Suc (length al)"
  by (induction al) auto

lemma fetch_loop_length:
  "length (fst (fetch_loop e period k symbols (data, page))) \<le> length data + length symbols"
proof (induction symbols arbitrary: k data page)
  case Nil
  show ?case by simp
next
  case (Cons symbol rest)
  show ?case
  proof (cases "fetch_symbol e k symbol period")
    case (Inl ex)
    with Cons.IH [of "Suc k" data] show ?thesis by (simp add: le_Suc_eq)
  next
    case (Inr snap)
    have "length (fst (fetch_loop e period (Suc k) rest (AList.update symbol snap data, page)))
            \<le> length (AList.update symbol snap data) + length rest"
      by (rule Cons.IH)
    also have "\<dots> \<le> Suc (length data) + length rest"
      using length_update_le [of symbol snap data] by simp
    finally show ?thesis using Inr by simp
  qed
qed

lemma get_stock_data_length:
  "length (fst (get_stock_data e symbols period)) \<le> length symbols"
  using fetch_loop_length [of e period 0 symbols "[]" "[]"] by (simp add: get_stock_data_def)

lemma length_concat_singletons:
  "\<forall>x \<in> set xs. length (f x) = 1 \<Longrightarrow> length (concat (map f xs)) = length xs"
  by (induction xs) auto

text \<open>
  Claim C1. For every list of symbols and every period, \<open>get_stock_data\<close> returns (it is a
  total function of what the services answer, whatever they raise), and the keys of the
  mapping it returns are symbols of the list: exactly those with an iteration whose
  \<open>try\<close> body did not raise. Every iteration is run, each raising one adds one warning that
  names its symbol, in order, and the others add none. When every iteration raises, the
  mapping is empty and there is one warning per symbol.
\<close>

theorem get_stock_data_isolates_failures:
  "fst ` set (fst (get_stock_data e symbols period)) \<subseteq> set symbols \<and>
   fst ` set (fst (get_stock_data e symbols period)) =
     {s. \<exists>i < length symbols. symbols ! i = s \<and>
           (\<exists>snap. fetch_symbol e i s period = Inr snap)} \<and>
   snd (get_stock_data e symbols period) =
     concat (map (fetch_warning e period) (enumerate 0 symbols)) \<and>
   ((\<forall>i < length symbols. \<exists>ex. fetch_symbol e i (symbols ! i) period = Inl ex) \<longrightarrow>
      fst (get_stock_data e symbols period) = [] \<and>
      length (snd (get_stock_data e symbols period)) = length symbols)"
proof -
  let ?K = "{s. \<exists>i < length symbols. symbols ! i = s \<and>
           (\<exists>snap. fetch_symbol e i s period = Inr snap)}"
  have keys: "fst ` set (fst (get_stock_data e symbols period)) = ?K"
    using fetch_loop_keys [of e period 0 symbols "[]" "[]"] by (simp add: get_stock_data_def)
  have sub: "?K \<subseteq> set symbols" by auto
  have page: "snd (get_stock_data e symbols period) =
     concat (map (fetch_warning e period) (enumerate 0 symbols))"
    using fetch_loop_page [of e period 0 symbols "[]" "[]"] by (simp add: get_stock_data_def)
  have allfail: "fst (get_stock_data e symbols period) = [] \<and>
      length (snd (get_stock_data e symbols period)) = length symbols"
    if a: "\<forall>i < length symbols. \<exists>ex. fetch_symbol e i (symbols ! i) period = Inl ex"
  proof
    from a have "?K = {}" by auto
    with keys show "fst (get_stock_data e symbols period) = []" by simp
    have "\<forall>p \<in> set (enumerate 0 symbols). length (fetch_warning e period p) = 1"
    proof
      fix p assume "p \<in> set (enumerate 0 symbols)"
      then have "fst p < length symbols \<and> symbols ! fst p = snd p"
        by (simp add: in_set_enumerate_eq)
      then obtain i where "i < length symbols" "p = (i, symbols ! i)"
        by (cases p) simp
      with a show "length (fetch_warning e period p) = 1"
        by (auto simp: fetch_warning_def)
    qed
    then have "length (concat (map (fetch_warning e period) (enumerate 0 symbols))) =
               length (enumerate 0 symbols)"
      by (rule length_concat_singletons)
    then show "length (snd (get_stock_data e symbols period)) = length symbols"
      by (simp add: page)
  qed
  from keys sub page allfail show ?thesis by (simp only:) blast
qed

theorem get_stock_data_isolates_failures_witness:
  "fetch_symbol failing_env 0 ''AAPL'' ''6mo'' = Inl ''connection refused'' \<and>
   fetch_symbol failing_env 1 ''TSLA'' ''6mo'' = Inl ''connection refused'' \<and>
   fst (get_stock_data failing_env [''AAPL'', ''TSLA''] ''6mo'') = [] \<and>
   length (snd (get_stock_data failing_env [''AAPL'', ''TSLA''] ''6mo'')) = 2"
proof -
  have h: "\<forall>i < length [''AAPL'', ''TSLA''].
      \<exists>ex. fetch_symbol failing_env i ([''AAPL'', ''TSLA''] ! i) ''6mo'' = Inl ex"
    by (simp add: fetch_symbol_def failing_env_def)
  have imp: "(\<forall>i < length [''AAPL'', ''TSLA''].
      \<exists>ex. fetch_symbol failing_env i ([''AAPL'', ''TSLA''] ! i) ''6mo'' = Inl ex) \<longrightarrow>
    fst (get_stock_data failing_env [''AAPL'', ''TSLA''] ''6mo'') = [] \<and>
    length (snd (get_stock_data failing_env [''AAPL'', ''TSLA''] ''6mo'')) =
      length [''AAPL'', ''TSLA'']"
    using get_stock_data_isolates_failures [of failing_env "[''AAPL'', ''TSLA'']" "''6mo''"]
    by (elim conjE)
  from imp h have "fst (get_stock_data failing_env [''AAPL'', ''TSLA''] ''6mo'') = [] \<and>
    length (snd (get_stock_data failing_env [''AAPL'', ''TSLA''] ''6mo'')) =
      length [''AAPL'', ''TSLA'']" by (rule mp)
  then have "fst (get_stock_data failing_env [''AAPL'', ''TSLA''] ''6mo'') = [] \<and>
    length (snd (get_stock_data failing_env [''AAPL'', ''TSLA''] ''6mo'')) = 2" by simp
  moreover have "fetch_symbol failing_env 0 ''AAPL'' ''6mo'' = Inl ''connection refused''"
    "fetch_symbol failing_env 1 ''TSLA'' ''6mo'' = Inl ''connection refused''"
    by (simp_all add: fetch_symbol_def failing_env_def)
  ultimately show ?thesis by (intro conjI) (elim conjE, assumption)+
qed

text \<open>
  Claim C4, as stated, fails: a symbol whose fetch completes with no rows raises nothing, so
  it is stored. For \<open>EMPTY\<close> the mapping has the key and there is no warning.
\<close>

theorem empty_history_kept_counterexample:
  "yf_history example_env 0 ''EMPTY'' ''6mo'' = Inr [] \<and>
   ''EMPTY'' \<in> fst ` set (fst (get_stock_data example_env [''EMPTY''] ''6mo'')) \<and>
   snd (get_stock_data example_env [''EMPTY''] ''6mo'') = []"
  by (simp add: get_stock_data_def fetch_symbol_def example_env_def)

text \<open>
  Claim C4, amended. A symbol whose fetch completes with an empty history is a key of the
  mapping and gets no warning; when the symbol is listed once, its entry is the empty
  history, the fetched info and no current price.
\<close>

theorem empty_history_kept:
  "i < length symbols \<Longrightarrow>
   yf_history e i (symbols ! i) period = Inr [] \<Longrightarrow>
   yf_info e i (symbols ! i) = Inr nfo \<Longrightarrow>
   symbols ! i \<in> fst ` set (fst (get_stock_data e symbols period)) \<and>
   fetch_warning e period (i, symbols ! i) = [] \<and>
   ((\<forall>j < length symbols. symbols ! j = symbols ! i \<longrightarrow> j = i) \<longrightarrow>
      map_of (fst (get_stock_data e symbols period)) (symbols ! i) =
        Some \<lparr>history = [], info = nfo, current_price = None\<rparr>)"
proof -
  assume i: "i < length symbols" and h: "yf_history e i (symbols ! i) period = Inr []"
    and n: "yf_info e i (symbols ! i) = Inr nfo"
  have f: "fetch_symbol e i (symbols ! i) period =
             Inr \<lparr>history = [], info = nfo, current_price = None\<rparr>"
    using h n by (simp add: fetch_symbol_def)
  have "symbols ! i \<in> fst ` set (fst (get_stock_data e symbols period))"
    using fetch_loop_keys [of e period 0 symbols "[]" "[]"] i f
    by (auto simp: get_stock_data_def)
  moreover have "fetch_warning e period (i, symbols ! i) = []"
    using f by (simp add: fetch_warning_def)
  moreover have "map_of (fst (get_stock_data e symbols period)) (symbols ! i) =
        Some \<lparr>history = [], info = nfo, current_price = None\<rparr>"
    if "\<forall>j < length symbols. symbols ! j = symbols ! i \<longrightarrow> j = i"
    using fetch_loop_lookup [of i symbols e 0 period _ "[]" "[]"] i that f
    by (simp add: get_stock_data_def)
  ultimately show ?thesis by blast
qed

theorem empty_history_kept_witness:
  "map_of (fst (get_stock_data example_env [''AAPL'', ''EMPTY''] ''6mo'')) ''EMPTY'' =
     Some \<lparr>history = [], info = [(''longName'', ''EMPTY'')], current_price = None\<rparr>"
proof -
  have a: "(1::nat) < length [''AAPL'', ''EMPTY'']" by simp
  have b: "yf_history example_env 1 ([''AAPL'', ''EMPTY''] ! 1) ''6mo'' = Inr []"
    by (simp add: example_env_def)
  have c: "yf_info example_env 1 ([''AAPL'', ''EMPTY''] ! 1) = Inr [(''longName'', ''EMPTY'')]"
    by (simp add: example_env_def)
  have d: "\<forall>j < length [''AAPL'', ''EMPTY''].
       [''AAPL'', ''EMPTY''] ! j = [''AAPL'', ''EMPTY''] ! 1 \<longrightarrow> j = 1"
    by (simp add: less_Suc_eq)
  note t = empty_history_kept [OF a b c]
  from t have "(\<forall>j < length [''AAPL'', ''EMPTY''].
       [''AAPL'', ''EMPTY''] ! j = [''AAPL'', ''EMPTY''] ! 1 \<longrightarrow> j = 1) \<longrightarrow>
     map_of (fst (get_stock_data example_env [''AAPL'', ''EMPTY''] ''6mo''))
       ([''AAPL'', ''EMPTY''] ! 1) =
     Some \<lparr>history = [], info = [(''longName'', ''EMPTY'')], current_price = None\<rparr>"
    by (elim conjE)
  from this d have "map_of (fst (get_stock_data example_env [''AAPL'', ''EMPTY''] ''6mo''))
       ([''AAPL'', ''EMPTY''] ! 1) =
     Some \<lparr>history = [], info = [(''longName'', ''EMPTY'')], current_price = None\<rparr>"
    by (rule mp)
  then show ?thesis by simp
qed

subsection \<open>The charts\<close>

lemma add_price_traces_eq:
  "add_price_traces sd fig =
     fig @ map (\<lambda>(symbol, data). Scatter symbol (map date (history data)) (map close (history data)))
             (filter (\<lambda>(symbol, data). history data \<noteq> []) sd)"
  by (induction sd fig rule: add_price_traces.induct) simp_all

lemma add_volume_traces_eq:
  "add_volume_traces sd fig =
     fig @ map (\<lambda>(symbol, data). Bar symbol (last_n 30 (map date (history data)))
                  (last_n 30 (map volume (history data))))
             (filter (\<lambda>(symbol, data). history data \<noteq> []) sd)"
  by (induction sd fig rule: add_volume_traces.induct) simp_all

lemma length_last_n: "length (last_n n xs) = min n (length xs)"
  by (simp add: last_n_def)

lemma distinct_filter_keys:
  "distinct (map fst sd) \<Longrightarrow> distinct (map fst (filter P sd))"
  by (induction sd) auto

text \<open>
  Claim C6. For every snapshot mapping, the price chart has exactly one line per entry with
  a non-empty history, in the order of the mapping and named by its symbol, over all dates
  and closes of the history; the volume chart has exactly one bar series per such entry,
  holding the last 30 dates and volumes of the history, all of them when there are fewer,
  so never more than 30 points. Entries with an empty history add no series to either chart.
  With the distinct keys of a mapping, no symbol has two series.
\<close>

theorem charts_one_series_per_history:
  "traces (create_price_chart sd) =
     map (\<lambda>(symbol, data). Scatter symbol (map date (history data)) (map close (history data)))
       (filter (\<lambda>(symbol, data). history data \<noteq> []) sd) \<and>
   traces (create_volume_chart sd) =
     map (\<lambda>(symbol, data). Bar symbol (last_n 30 (map date (history data)))
            (last_n 30 (map volume (history data))))
       (filter (\<lambda>(symbol, data). history data \<noteq> []) sd) \<and>
   map trace_name (traces (create_price_chart sd)) =
     map fst (filter (\<lambda>(symbol, data). history data \<noteq> []) sd) \<and>
   map trace_name (traces (create_volume_chart sd)) =
     map fst (filter (\<lambda>(symbol, data). history data \<noteq> []) sd) \<and>
   (\<forall>t \<in> set (traces (create_volume_chart sd)).
      length (trace_x t) \<le> 30 \<and> length (volume_y t) \<le> 30) \<and>
   (\<forall>(symbol, data) \<in> set sd.
      length (last_n 30 (map volume (history data))) = min 30 (length (history data)) \<and>
      last_n 30 (map volume (history data)) =
        drop (length (history data) - 30) (map volume (history data))) \<and>
   (distinct (map fst sd) \<longrightarrow>
      distinct (map trace_name (traces (create_price_chart sd))) \<and>
      distinct (map trace_name (traces (create_volume_chart sd))))"
proof -
  let ?keep = "filter (\<lambda>(symbol, data). history data \<noteq> []) sd"
  have p: "traces (create_price_chart sd) =
     map (\<lambda>(symbol, data). Scatter symbol (map date (history data)) (map close (history data)))
       ?keep"
    by (simp add: create_price_chart_def add_price_traces_eq)
  have v: "traces (create_volume_chart sd) =
     map (\<lambda>(symbol, data). Bar symbol (last_n 30 (map date (history data)))
            (last_n 30 (map volume (history data)))) ?keep"
    by (simp add: create_volume_chart_def add_volume_traces_eq)
  have pn: "map trace_name (traces (create_price_chart sd)) = map fst ?keep"
    by (simp add: p case_prod_unfold comp_def)
  have vn: "map trace_name (traces (create_volume_chart sd)) = map fst ?keep"
    by (simp add: v case_prod_unfold comp_def)
  have b: "\<forall>t \<in> set (traces (create_volume_chart sd)).
      length (trace_x t) \<le> 30 \<and> length (volume_y t) \<le> 30"
    by (auto simp: v length_last_n)
  have s: "\<forall>(symbol, data) \<in> set sd.
      length (last_n 30 (map volume (history data))) = min 30 (length (history data)) \<and>
      last_n 30 (map volume (history data)) =
        drop (length (history data) - 30) (map volume (history data))"
    by (auto simp: length_last_n) (simp add: last_n_def)
  have d: "distinct (map fst sd) \<longrightarrow>
      distinct (map trace_name (traces (create_price_chart sd))) \<and>
      distinct (map trace_name (traces (create_volume_chart sd)))"
    by (simp only: pn vn) (simp add: distinct_filter_keys)
  show ?thesis
    by (rule conjI [OF p conjI [OF v conjI [OF pn conjI [OF vn conjI [OF b conjI [OF s d]]]]]])
qed

lemma length_long_history: "length long_history = 200"
  by (simp add: long_history_def)

theorem charts_one_series_per_history_witness:
  "length (history (snd (hd sample_data))) = 200 \<and>
   map trace_name (traces (create_price_chart sample_data)) = [''AAPL''] \<and>
   map trace_name (traces (create_volume_chart sample_data)) = [''AAPL''] \<and>
   length (price_y (hd (traces (create_price_chart sample_data)))) = 200 \<and>
   length (volume_y (hd (traces (create_volume_chart sample_data)))) = 30"
proof -
  have ne: "long_history \<noteq> []" using length_long_history by auto
  note t = charts_one_series_per_history [of sample_data]
  from t have "traces (create_price_chart sample_data) =
     [Scatter ''AAPL'' (map date long_history) (map close long_history)]"
    by (simp add: sample_data_def ne)
  moreover from t have "traces (create_volume_chart sample_data) =
     [Bar ''AAPL'' (last_n 30 (map date long_history)) (last_n 30 (map volume long_history))]"
    by (simp add: sample_data_def ne)
  ultimately show ?thesis
    by (simp add: length_last_n length_long_history) (simp add: sample_data_def length_long_history)
qed

subsection \<open>The metric cards\<close>

lemma iloc_last: "xs \<noteq> [] \<Longrightarrow> iloc xs (- 1) = Inr (last xs)"
proof -
  assume ne: "xs \<noteq> []"
  then have l: "1 \<le> length xs" by (cases xs) simp_all
  then have "nat (int (length xs) + - 1) = length xs - 1" by linarith
  with l ne show ?thesis by (simp add: iloc_def last_conv_nth)
qed




lemma fetch_symbol_current_price:
  "fetch_symbol e k symbol period = Inr data \<Longrightarrow>
   current_price data =
     (if history data = [] then None else Some (close (last (history data))))"
  by (auto simp: fetch_symbol_def iloc_last last_map split: sum.splits if_splits)

lemma metric_card_none: "current_price data = None \<Longrightarrow> metric_card symbol data = []"
  by (simp add: metric_card_def)

lemma metric_card_zero: "current_price data = Some 0 \<Longrightarrow> metric_card symbol data = []"
  by (simp add: metric_card_def)






text \<open>
  Claim C10. A symbol gets a metric card exactly when its current price is present and not
  zero. So a fetched symbol without rows (no current price) or whose last close is zero gets
  no card at all, also with a single row, where the guard on the number of rows would have
  drawn the price alone.
\<close>

theorem metric_card_needs_price:
  "(metric_card symbol data \<noteq> [] \<longleftrightarrow> (\<exists>c. current_price data = Some c \<and> c \<noteq> 0)) \<and>
   (fetch_symbol e k symbol period = Inr data \<and>
    (history data = [] \<or> close (last (history data)) = 0) \<longrightarrow>
      metric_card symbol data = [])"
proof (intro conjI impI)
  show "metric_card symbol data \<noteq> [] \<longleftrightarrow> (\<exists>c. current_price data = Some c \<and> c \<noteq> 0)"
    by (auto simp: metric_card_def Let_def split: option.splits sum.splits)
next
  assume a: "fetch_symbol e k symbol period = Inr data \<and>
    (history data = [] \<or> close (last (history data)) = 0)"
  then have "current_price data = None \<or> current_price data = Some 0"
    using fetch_symbol_current_price [of e k symbol period data] by auto
  then show "metric_card symbol data = []"
    using metric_card_none metric_card_zero by blast
qed

theorem metric_card_needs_price_witness:
  "fetch_symbol example_env 0 ''ZERO'' ''6mo'' =
     Inr \<lparr>history = [\<lparr>date = 1, close = 0, volume = 0\<rparr>], info = [(''longName'', ''ZERO'')],
          current_price = Some 0\<rparr> \<and>
   metric_card ''ZERO''
     \<lparr>history = [\<lparr>date = 1, close = 0, volume = 0\<rparr>], info = [(''longName'', ''ZERO'')],
      current_price = Some 0\<rparr> = []"
proof -
  let ?d = "\<lparr>history = [\<lparr>date = 1, close = 0, volume = 0\<rparr>], info = [(''longName'', ''ZERO'')],
          current_price = Some (0::real)\<rparr>"
  have f: "fetch_symbol example_env 0 ''ZERO'' ''6mo'' = Inr ?d"
    by (simp add: fetch_symbol_def example_env_def iloc_def)
  have z: "history ?d = [] \<or> close (last (history ?d)) = 0" by simp
  from metric_card_needs_price [of "''ZERO''" ?d example_env 0 "''6mo''"] f z
  have "metric_card ''ZERO'' ?d = []" by blast
  with f show ?thesis by (rule conjI)
qed

subsection \<open>The stock selection\<close>

text \<open>\<open>str_split\<close> cuts at every separator and nowhere else.\<close>

lemma str_split_nonempty: "str_split c s \<noteq> []"
  by (induction s) (auto split: list.splits)

lemma str_join_split: "str_join [c] (str_split c s) = s"
proof (induction s)
  case Nil
  show ?case by simp
next
  case (Cons x xs)
  obtain p ps where ps: "str_split c xs = p # ps"
    using str_split_nonempty [of c xs] by (cases "str_split c xs") auto
  with Cons show ?case by (cases ps) auto
qed

lemma str_split_no_separator: "p \<in> set (str_split c s) \<Longrightarrow> c \<notin> set p"
  by (induction s arbitrary: p) (auto split: list.splits if_splits)

lemma select_stocks_nonempty: "select_stocks inp \<noteq> []"
  by (simp add: select_stocks_def Let_def default_stocks_def)

text \<open>
  Claim C8. When the custom-symbols text is not empty, the selection is that text split at
  commas, each piece stripped and upper-cased, whatever the category and the multiselect
  hold. When the text is empty, the selection is the multiselect's value, and the default
  \<open>AAPL, TSLA, GOOGL\<close> when that value is empty. The selection is never empty.
\<close>

theorem select_stocks_override:
  "(text_input inp \<noteq> [] \<longrightarrow>
      select_stocks inp =
        map (\<lambda>s. str_upper (str_strip s)) (str_split (CHR '','') (text_input inp)) \<and>
      select_stocks (inp\<lparr>multiselect := chosen', selectbox := cat'\<rparr>) = select_stocks inp) \<and>
   (text_input inp = [] \<and> multiselect inp = Some chosen \<and> chosen \<noteq> [] \<longrightarrow>
      select_stocks inp = chosen) \<and>
   (text_input inp = [] \<and> multiselect inp = Some [] \<longrightarrow>
      select_stocks inp = [''AAPL'', ''TSLA'', ''GOOGL'']) \<and>
   (text_input inp = [] \<and> multiselect inp = None \<longrightarrow>
      select_stocks inp =
        (if selectbox inp = Technology then [''AAPL'', ''TSLA'', ''GOOGL'']
         else take 3 (popular_stocks (selectbox inp)))) \<and>
   select_stocks inp \<noteq> []"
proof (intro conjI impI)
  assume t: "text_input inp \<noteq> []"
  then show "select_stocks inp =
        map (\<lambda>s. str_upper (str_strip s)) (str_split (CHR '','') (text_input inp))"
    by (simp add: select_stocks_def Let_def str_split_nonempty)
  from t show "select_stocks (inp\<lparr>multiselect := chosen', selectbox := cat'\<rparr>) = select_stocks inp"
    by (simp add: select_stocks_def Let_def str_split_nonempty)
next
  assume "text_input inp = [] \<and> multiselect inp = Some chosen \<and> chosen \<noteq> []"
  then show "select_stocks inp = chosen"
    by (simp add: select_stocks_def Let_def)
next
  assume "text_input inp = [] \<and> multiselect inp = Some []"
  then show "select_stocks inp = [''AAPL'', ''TSLA'', ''GOOGL'']"
    by (simp add: select_stocks_def Let_def default_stocks_def)
next
  assume "text_input inp = [] \<and> multiselect inp = None"
  then show "select_stocks inp =
        (if selectbox inp = Technology then [''AAPL'', ''TSLA'', ''GOOGL'']
         else take 3 (popular_stocks (selectbox inp)))"
    by (cases "selectbox inp") (simp_all add: select_stocks_def Let_def default_stocks_def)
next
  show "select_stocks inp \<noteq> []" by (rule select_stocks_nonempty)
qed

theorem select_stocks_override_witness:
  "text_input (sample_inputs\<lparr>text_input := '' aapl, msft ,''\<rparr>) = '' aapl, msft ,'' \<and>
   select_stocks (sample_inputs\<lparr>text_input := '' aapl, msft ,''\<rparr>) = [''AAPL'', ''MSFT'', '''']"
proof -
  let ?inp = "sample_inputs\<lparr>text_input := '' aapl, msft ,''\<rparr>"
  have t: "text_input ?inp = '' aapl, msft ,''" by simp
  then have ne: "text_input ?inp \<noteq> []" by simp
  have e: "map (\<lambda>s. str_upper (str_strip s)) (str_split (CHR '','') '' aapl, msft ,'') =
             [''AAPL'', ''MSFT'', '''']"
    by code_simp
  from select_stocks_override [of ?inp] ne
  have "select_stocks ?inp =
        map (\<lambda>s. str_upper (str_strip s)) (str_split (CHR '','') (text_input ?inp))"
    by blast
  with t e have "select_stocks ?inp = [''AAPL'', ''MSFT'', '''']" by simp
  with t show ?thesis by (rule conjI)
qed

subsection \<open>One pass\<close>

lemma main_state:
  "fst (main e inp s) =
     fst (run_analysis e (fst (initialize_agent e (button_initialize inp) s))
            (select_stocks inp) (radio inp) (text_area inp) (button_run inp))"
  by (simp add: main_def Let_def split: prod.splits)

lemma main_page:
  "snd (main e inp s) =
     snd (initialize_agent e (button_initialize inp) s) @
     data_panel e (select_stocks inp) @
     snd (run_analysis e (fst (initialize_agent e (button_initialize inp) s))
            (select_stocks inp) (radio inp) (text_area inp) (button_run inp))"
  by (simp add: main_def Let_def split: prod.splits)

lemma initialize_agent_history:
  "analysis_history (fst (initialize_agent e clicked s)) = analysis_history s"
  by (simp add: initialize_agent_def split: prod.splits)

lemma initialize_agent_clicked:
  "agent (fst (initialize_agent e True s)) = fst (create_agent e)"
  by (simp add: initialize_agent_def st_button_def split: prod.splits)

lemma initialize_agent_idle: "fst (initialize_agent e False s) = s"
  by (simp add: initialize_agent_def st_button_def)

lemma run_analysis_agent:
  "agent (fst (run_analysis e s selected mode text clicked)) = agent s"
  by (simp add: run_analysis_def Let_def split: option.splits sum.splits)

lemma run_analysis_absent:
  "agent s = None \<Longrightarrow>
   run_analysis e s selected mode text clicked =
     (s, [Header ''AI Financial Analysis'',
          Warning ''Please initialize the AI Agent in the sidebar first.''])"
  by (simp add: run_analysis_def)



lemma run_analysis_idle:
  "\<not> clicked \<or> selected = [] \<Longrightarrow> fst (run_analysis e s selected mode text clicked) = s"
  by (auto simp: run_analysis_def Let_def st_button_def split: option.splits)

lemma run_analysis_button:
  "agent s = Some a \<Longrightarrow>
   Button ''Run Analysis'' (selected = []) \<in> set (snd (run_analysis e s selected mode text clicked))"
  by (simp add: run_analysis_def Let_def split: sum.splits)

lemma fetch_warning_elements: "x \<in> set (fetch_warning e period p) \<Longrightarrow> \<exists>t. x = Warning t"
  by (cases p) (auto simp: fetch_warning_def split: sum.splits)

lemma metric_card_elements: "x \<in> set (metric_card symbol data) \<Longrightarrow> \<exists>l v d. x = Metric l v d"
  by (cases "current_price data"; cases "iloc (map close (history data)) (- 2)")
     (auto simp: metric_card_def Let_def split: if_splits)

lemma data_panel_cases:
  assumes "get_stock_data e selected ''6mo'' = (sd, ws)"
  shows "data_panel e selected =
    (if selected = [] then []
     else Header (''Live Data for '' @ str_join '', '' selected) # ws @
       (if sd = [] then []
        else concat (map (\<lambda>(symbol, data). metric_card symbol data) sd) @
                [PlotlyChart (create_price_chart sd),
                 PlotlyChart (create_volume_chart sd)]))"
  using assms unfolding data_panel_def by simp

lemma data_panel_no_button: "Button label disabled \<notin> set (data_panel e selected)"
proof
  assume b: "Button label disabled \<in> set (data_panel e selected)"
  obtain sd ws where g: "get_stock_data e selected ''6mo'' = (sd, ws)"
    by (cases "get_stock_data e selected ''6mo''") blast
  have w: "ws = concat (map (fetch_warning e ''6mo'') (enumerate 0 selected))"
    using fetch_loop_page [of e "''6mo''" 0 selected "[]" "[]"] g
    by (simp add: get_stock_data_def)
  from b have "Button label disabled \<in> set ws \<or>
      Button label disabled \<in> set (concat (map (\<lambda>(symbol, data). metric_card symbol data) sd))"
    by (simp add: data_panel_cases [OF g] split: if_splits)
  then show False
  proof
    assume "Button label disabled \<in> set ws"
    then show False using fetch_warning_elements by (fastforce simp: w)
  next
    assume "Button label disabled \<in>
      set (concat (map (\<lambda>(symbol, data). metric_card symbol data) sd))"
    then show False using metric_card_elements by fastforce
  qed
qed

lemma initialize_agent_no_run_button:
  "Button ''Run Analysis'' disabled \<notin> set (snd (initialize_agent e clicked s))"
  by (auto simp: initialize_agent_def create_agent_def split: prod.splits sum.splits if_splits)

text \<open>
  Claim C9. A click on Initialize stores what \<open>create_agent\<close> returns, whatever the session
  held. So when the construction raises, the session has no agent after the pass, also when
  it had a working one before: both errors are shown, the analysis section shows the
  warning and no Run button, and the history is as before.
\<close>

theorem failed_initialize_clears_agent:
  "(button_initialize inp \<longrightarrow> agent (fst (main e inp s)) = fst (create_agent e)) \<and>
   (button_initialize inp \<and> Agent_new e = Inl ex \<longrightarrow>
      agent (fst (main e inp s)) = None \<and>
      analysis_history (fst (main e inp s)) = analysis_history s \<and>
      Error (''Error creating agent: '' @ ex) \<in> set (snd (main e inp s)) \<and>
      Error ''Failed to initialize agent'' \<in> set (snd (main e inp s)) \<and>
      Warning ''Please initialize the AI Agent in the sidebar first.''
        \<in> set (snd (main e inp s)) \<and>
      Button ''Run Analysis'' disabled \<notin> set (snd (main e inp s)))"
proof (intro conjI impI)
  assume "button_initialize inp"
  then show "agent (fst (main e inp s)) = fst (create_agent e)"
    by (simp add: main_state run_analysis_agent initialize_agent_clicked)
next
  assume a: "button_initialize inp \<and> Agent_new e = Inl ex"
  then have c: "create_agent e = (None, [Error (''Error creating agent: '' @ ex)])"
    by (simp add: create_agent_def)
  with a have i: "initialize_agent e (button_initialize inp) s =
      (s\<lparr>agent := None\<rparr>,
       [Button ''Initialize AI Agent'' False, Error (''Error creating agent: '' @ ex),
        Error ''Failed to initialize agent''])"
    by (simp add: initialize_agent_def st_button_def)
  have r: "run_analysis e (s\<lparr>agent := None\<rparr>) (select_stocks inp) (radio inp) (text_area inp)
      (button_run inp) =
     (s\<lparr>agent := None\<rparr>, [Header ''AI Financial Analysis'',
          Warning ''Please initialize the AI Agent in the sidebar first.''])"
    by (rule run_analysis_absent) simp
  show "agent (fst (main e inp s)) = None" by (simp add: main_state i r)
  show "analysis_history (fst (main e inp s)) = analysis_history s" by (simp add: main_state i r)
  show "Error (''Error creating agent: '' @ ex) \<in> set (snd (main e inp s))"
    by (simp add: main_page i)
  show "Error ''Failed to initialize agent'' \<in> set (snd (main e inp s))"
    by (simp add: main_page i)
  show "Warning ''Please initialize the AI Agent in the sidebar first.''
        \<in> set (snd (main e inp s))"
    by (simp add: main_page i r)
  show "Button ''Run Analysis'' disabled \<notin> set (snd (main e inp s))"
    by (simp add: main_page i r data_panel_no_button)
qed

theorem failed_initialize_clears_agent_witness:
  "agent ready_state = Some (AgentHandle 7) \<and>
   button_initialize (sample_inputs\<lparr>button_initialize := True\<rparr>) \<and>
   Agent_new failing_env = Inl ''missing API key'' \<and>
   agent (fst (main failing_env (sample_inputs\<lparr>button_initialize := True\<rparr>) ready_state)) = None"
proof -
  have a: "button_initialize (sample_inputs\<lparr>button_initialize := True\<rparr>) \<and>
      Agent_new failing_env = Inl ''missing API key''"
    by (simp add: failing_env_def)
  from failed_initialize_clears_agent
         [of "sample_inputs\<lparr>button_initialize := True\<rparr>" failing_env ready_state
             "''missing API key''"] a
  have "agent (fst (main failing_env (sample_inputs\<lparr>button_initialize := True\<rparr>) ready_state)) =
          None"
    by blast
  moreover have "agent ready_state = Some (AgentHandle 7)" by (simp add: ready_state_def)
  ultimately show ?thesis using a by (intro conjI) simp_all
qed

text \<open>
  Claim C7. When the session has no agent at the end of a pass, the pass leaves the history
  as it was, shows the warning and draws no Run button, whether or not a run was asked for;
  without a click on Initialize, a session without agent is left unchanged. With an agent,
  the Run button is drawn, disabled exactly when no stock is selected, and with no stock
  selected the state is left unchanged.
\<close>

theorem run_analysis_gated:
  "(agent (fst (main e inp s)) = None \<longrightarrow>
      analysis_history (fst (main e inp s)) = analysis_history s \<and>
      Warning ''Please initialize the AI Agent in the sidebar first.''
        \<in> set (snd (main e inp s)) \<and>
      Button ''Run Analysis'' disabled \<notin> set (snd (main e inp s))) \<and>
   (\<not> button_initialize inp \<and> agent s = None \<longrightarrow> fst (main e inp s) = s) \<and>
   (agent st = Some a \<longrightarrow>
      Button ''Run Analysis'' (selected = [])
        \<in> set (snd (run_analysis e st selected mode text clicked))) \<and>
   (selected = [] \<longrightarrow> fst (run_analysis e st selected mode text clicked) = st)"
proof (intro conjI impI)
  let ?s1 = "fst (initialize_agent e (button_initialize inp) s)"
  assume "agent (fst (main e inp s)) = None"
  then have n: "agent ?s1 = None" by (simp add: main_state run_analysis_agent)
  note r = run_analysis_absent [OF n, of e "select_stocks inp" "radio inp" "text_area inp"
      "button_run inp"]
  show "analysis_history (fst (main e inp s)) = analysis_history s"
    by (simp add: main_state r initialize_agent_history)
  show "Warning ''Please initialize the AI Agent in the sidebar first.''
        \<in> set (snd (main e inp s))"
    by (simp add: main_page r)
  show "Button ''Run Analysis'' disabled \<notin> set (snd (main e inp s))"
    by (simp add: main_page r data_panel_no_button initialize_agent_no_run_button)
next
  assume a: "\<not> button_initialize inp \<and> agent s = None"
  then have "fst (initialize_agent e (button_initialize inp) s) = s"
    by (simp add: initialize_agent_idle)
  with a show "fst (main e inp s) = s"
    by (simp add: main_state run_analysis_absent)
next
  assume "agent st = Some a"
  then show "Button ''Run Analysis'' (selected = [])
        \<in> set (snd (run_analysis e st selected mode text clicked))"
    by (rule run_analysis_button)
next
  assume "selected = []"
  then show "fst (run_analysis e st selected mode text clicked) = st"
    by (simp add: run_analysis_idle)
qed

theorem run_analysis_gated_witness:
  "agent initial_state = None \<and> button_run sample_inputs \<and>
   fst (main example_env sample_inputs initial_state) = initial_state \<and>
   snd (run_analysis example_env ready_state [] Quick_Comparison [] True) =
     [Header ''AI Financial Analysis'', Button ''Run Analysis'' True] \<and>
   fst (run_analysis example_env ready_state [] Quick_Comparison [] True) = ready_state"
proof -
  have a: "\<not> button_initialize sample_inputs \<and> agent initial_state = None"
    by (simp add: sample_inputs_def initial_state_def)
  note t = run_analysis_gated [of example_env sample_inputs initial_state _ ready_state
      "AgentHandle 7" "[]" Quick_Comparison "[]" True]
  from t a have "fst (main example_env sample_inputs initial_state) = initial_state" by blast
  moreover from t have
    "fst (run_analysis example_env ready_state [] Quick_Comparison [] True) = ready_state"
    by blast
  moreover have "snd (run_analysis example_env ready_state [] Quick_Comparison [] True) =
     [Header ''AI Financial Analysis'', Button ''Run Analysis'' True]"
    by (simp add: run_analysis_def ready_state_def st_button_def)
  moreover have "agent initial_state = None" "button_run sample_inputs"
    by (simp_all add: sample_inputs_def initial_state_def)
  ultimately show ?thesis by (intro conjI)
qed

subsection \<open>The analysis run\<close>












end
